theory Spec2Isabelle
  imports Complex_Main
begin

section \<open>Edge publisher (publisher.py)\<close>

text \<open>
  Python floats are modelled as reals (exact arithmetic, no NaN and no infinities),
  Python ints as \<open>int\<close>, and Python \<open>str\<close>/\<open>bytes\<close> values as UTF-8 byte
  strings (\<open>string\<close>). A \<open>str\<close> is held as the bytes that
  \<^verbatim>\<open>s.encode("utf-8", "surrogatepass")\<close> gives, so that it can hold a lone surrogate
  U+D800..U+DFFF, as the three bytes \<open>ED\<close>, \<open>A0..BF\<close>, \<open>80..BF\<close>; in the UTF-8 of
  any other code point the byte after an \<open>ED\<close> is below \<open>A0\<close>.
\<close>

subsection \<open>Configuration constants\<close>

definition CONF_THRESHOLD :: real where
  "CONF_THRESHOLD = 5 / 10"

definition COOLDOWN_SECONDS :: real where
  "COOLDOWN_SECONDS = 5"

definition ROI_X1 :: int where "ROI_X1 = 100"
definition ROI_Y1 :: int where "ROI_Y1 = 100"
definition ROI_X2 :: int where "ROI_X2 = 500"
definition ROI_Y2 :: int where "ROI_Y2 = 400"

definition LOCATION_LABEL :: string where
  "LOCATION_LABEL = ''Living Room''"

subsection \<open>Geometry: \<open>point_in_rect\<close>\<close>

text \<open>
  \<^verbatim>\<open>return (x1 <= cx <= x2) and (y1 <= cy <= y2)\<close>: a chained comparison is the
  conjunction of its two halves. The point is a pair of floats, the rectangle four ints.
\<close>

definition point_in_rect :: "real \<Rightarrow> real \<Rightarrow> int \<Rightarrow> int \<Rightarrow> int \<Rightarrow> int \<Rightarrow> bool" where
  "point_in_rect cx cy x1 y1 x2 y2 =
     ((real_of_int x1 \<le> cx \<and> cx \<le> real_of_int x2) \<and>
      (real_of_int y1 \<le> cy \<and> cy \<le> real_of_int y2))"

subsection \<open>Detections of one frame\<close>

text \<open>
  One element of \<open>result.boxes\<close>: \<open>box.cls[0]\<close> and \<open>box.conf[0]\<close> are tensor
  entries (floats), \<open>box.xyxy[0]\<close> holds the four corner coordinates as floats.
\<close>

record box =
  cls :: real
  conf :: real
  xyxy :: "real \<times> real \<times> real \<times> real"

text \<open>Python's \<open>int(x)\<close> on a float truncates towards zero.\<close>

definition py_int :: "real \<Rightarrow> int" where
  "py_int x = (if 0 \<le> x then \<lfloor>x\<rfloor> else \<lceil>x\<rceil>)"

text \<open>
  \<open>model.names\<close> is the class table of the detection model, a dict from class id to
  label; it belongs to the model file and is a parameter here.
  \<^verbatim>\<open>label = model.names.get(cls_id, "unknown")\<close>
\<close>

type_synonym names = "int \<Rightarrow> string option"

definition label_of :: "names \<Rightarrow> box \<Rightarrow> string" where
  "label_of nm b = (case nm (py_int (cls b)) of Some l \<Rightarrow> l | None \<Rightarrow> ''unknown'')"

text \<open>
  \<^verbatim>\<open>x1, y1, x2, y2 = map(int, box.xyxy[0])\<close>: the bounding box the program works with
  (and draws) is the integer pixel box.
\<close>

definition bbox :: "box \<Rightarrow> int \<times> int \<times> int \<times> int" where
  "bbox b = (case xyxy b of (a, b', c, d) \<Rightarrow> (py_int a, py_int b', py_int c, py_int d))"

text \<open>\<^verbatim>\<open>cx = (x1 + x2) / 2; cy = (y1 + y2) / 2\<close> (true division).\<close>

definition center :: "box \<Rightarrow> real \<times> real" where
  "center b = (case bbox b of (x1, y1, x2, y2) \<Rightarrow>
     (real_of_int (x1 + x2) / 2, real_of_int (y1 + y2) / 2))"

text \<open>
  The inner loop \<^verbatim>\<open>for box in result.boxes\<close> with the running flag \<open>intrusion\<close>:
  a box that is not a person or is below the confidence threshold is skipped
  (\<open>continue\<close>); otherwise its centre is tested against the zone.
\<close>

fun scan_boxes :: "names \<Rightarrow> bool \<Rightarrow> box list \<Rightarrow> bool" where
  "scan_boxes nm intrusion [] = intrusion"
| "scan_boxes nm intrusion (b # bs) =
     (if label_of nm b \<noteq> ''person'' \<or> conf b < CONF_THRESHOLD
      then scan_boxes nm intrusion bs
      else (case center b of (cx, cy) \<Rightarrow>
        if point_in_rect cx cy ROI_X1 ROI_Y1 ROI_X2 ROI_Y2
        then scan_boxes nm True bs
        else scan_boxes nm intrusion bs))"

text \<open>The outer loop \<^verbatim>\<open>for result in results\<close>.\<close>

fun scan_results :: "names \<Rightarrow> bool \<Rightarrow> box list list \<Rightarrow> bool" where
  "scan_results nm intrusion [] = intrusion"
| "scan_results nm intrusion (r # rs) = scan_results nm (scan_boxes nm intrusion r) rs"

text \<open>A detection that passes both filters and whose centre lies in the zone.\<close>

definition intruder :: "names \<Rightarrow> box \<Rightarrow> bool" where
  "intruder nm b =
     (label_of nm b = ''person'' \<and> CONF_THRESHOLD \<le> conf b \<and>
      point_in_rect (fst (center b)) (snd (center b)) ROI_X1 ROI_Y1 ROI_X2 ROI_Y2)"

subsection \<open>Alert payload and \<open>publish_alert\<close>\<close>

text \<open>JSON documents, as Python's \<open>json\<close> module reads and writes them. A dict is an
  association list with distinct keys, looked up with \<open>map_of\<close>. The three floats that
  are not numbers are documents of their own.\<close>

datatype json =
    JNull
  | JBool bool
  | JInt int
  | JFloat real
  | JStr string
  | JArr "json list"
  | JObj "(string \<times> json) list"
  | JNaN
  | JInf
  | JNegInf

text \<open>
  The dict built at lines 73-77 of publisher.py, with its three values as arguments.
  \<open>publish_alert\<close> builds it with the status \<open>INTRUSION\<close>, the formatted current
  time and \<open>LOCATION_LABEL\<close>.
\<close>

definition alert_payload :: "string \<Rightarrow> string \<Rightarrow> string \<Rightarrow> json" where
  "alert_payload st ts loc =
     JObj [(''status'', JStr st), (''timestamp'', JStr ts), (''location'', JStr loc)]"

text \<open>
  What \<^verbatim>\<open>client.publish(MQTT_TOPIC, json.dumps(payload))\<close> does is decided by the
  broker connection: either the call returns (its return value is ignored by the
  program) and \<open>time.time()\<close> is read, or it raises.
\<close>

datatype publish_outcome =
    Published real    \<comment> \<open>the call returned; the argument is the \<open>time.time()\<close> of line 82\<close>
  | PublishRaised     \<comment> \<open>the call raised an \<open>Exception\<close>\<close>

text \<open>What the frame loop does that can be observed from outside.\<close>

datatype event =
    Dispatch real     \<comment> \<open>the cooldown test of line 195 passed in a frame with this \<open>now\<close>\<close>
  | EvidenceSaved     \<comment> \<open>\<open>cv2.imwrite\<close> returned\<close>
  | EvidenceFailed    \<comment> \<open>\<open>cv2.imwrite\<close> raised; the failure is printed\<close>
  | Publish json      \<comment> \<open>\<open>client.publish\<close> returned; the payload dict that was dumped\<close>
  | PublishFailed     \<comment> \<open>\<open>client.publish\<close> raised; the failure is printed\<close>

text \<open>
  \<^verbatim>\<open>
  try:
      client.publish(MQTT_TOPIC, json.dumps(payload)); print(...); return time.time()
  except Exception as e:
      print(...); return last_sent_ts if last_sent_ts is not None else 0.0
  \<close>
\<close>

definition publish_alert :: "string \<Rightarrow> publish_outcome \<Rightarrow> real option \<Rightarrow> event list \<times> real" where
  "publish_alert ts out last_sent_ts =
     (case out of
        Published t \<Rightarrow> ([Publish (alert_payload ''INTRUSION'' ts LOCATION_LABEL)], t)
      | PublishRaised \<Rightarrow>
          ([PublishFailed], (case last_sent_ts of Some t \<Rightarrow> t | None \<Rightarrow> 0)))"

subsection \<open>The frame loop of \<open>main\<close>\<close>

text \<open>
  \<^verbatim>\<open>if (last_sent is None) or (now - last_sent >= COOLDOWN_SECONDS)\<close>
\<close>

definition cooldown_elapsed :: "real option \<Rightarrow> real \<Rightarrow> bool" where
  "cooldown_elapsed last_sent t =
     (case last_sent of None \<Rightarrow> True | Some l \<Rightarrow> COOLDOWN_SECONDS \<le> t - l)"

text \<open>
  What one iteration of \<^verbatim>\<open>while True\<close> receives from its environment: whether
  \<open>cap.read()\<close> delivered a frame, the detections of the model, the \<open>time.time()\<close> of
  line 181, the formatted time of line 75, whether \<open>cv2.imwrite\<close> raises, what the
  publish call does, and whether the key read by \<open>cv2.waitKey\<close> is \<open>q\<close>.
\<close>

record frame =
  ret :: bool
  results :: "box list list"
  now :: real
  ts_str :: string
  imwrite_raises :: bool
  publish :: publish_outcome
  quit :: bool

text \<open>
  One iteration: the new value of \<open>last_sent\<close>, the events, and whether the loop is
  left (\<open>break\<close>). A failed read skips the rest of the iteration (\<open>continue\<close>).
\<close>

definition frame_step :: "names \<Rightarrow> real option \<Rightarrow> frame \<Rightarrow> real option \<times> event list \<times> bool" where
  "frame_step nm last_sent f =
     (if \<not> ret f then (last_sent, [], False)
      else if scan_results nm False (results f) \<and> cooldown_elapsed last_sent (now f)
      then (case publish_alert (ts_str f) (publish f) last_sent of
              (evs, t) \<Rightarrow>
                (Some t,
                 Dispatch (now f) #
                   (if imwrite_raises f then EvidenceFailed else EvidenceSaved) # evs,
                 quit f))
      else (last_sent, [], quit f))"

text \<open>The loop over the iterations the environment provides, until \<open>break\<close>.\<close>

fun main_loop :: "names \<Rightarrow> real option \<Rightarrow> frame list \<Rightarrow> real option \<times> event list" where
  "main_loop nm last_sent [] = (last_sent, [])"
| "main_loop nm last_sent (f # fs) =
     (case frame_step nm last_sent f of
        (last_sent', evs, stop) \<Rightarrow>
          if stop then (last_sent', evs)
          else (case main_loop nm last_sent' fs of
                  (last_sent'', evs') \<Rightarrow> (last_sent'', evs @ evs')))"

text \<open>The frame times of the accepted dispatches of a trace, in order.\<close>

fun dispatch_times :: "event list \<Rightarrow> real list" where
  "dispatch_times [] = []"
| "dispatch_times (Dispatch t # es) = t # dispatch_times es"
| "dispatch_times (e # es) = dispatch_times es"

text \<open>No two of the times, taken in order, are less than \<open>COOLDOWN_SECONDS\<close> apart.\<close>

definition spaced :: "real list \<Rightarrow> bool" where
  "spaced ts = sorted_wrt (\<lambda>a b. COOLDOWN_SECONDS \<le> b - a) ts"

text \<open>The publish call of the frame returns, at a clock reading not before the frame's.\<close>

definition publish_returns :: "frame \<Rightarrow> bool" where
  "publish_returns f = (case publish f of Published t \<Rightarrow> now f \<le> t | PublishRaised \<Rightarrow> False)"

subsection \<open>Process exit\<close>

text \<open>
  How a run of \<open>main()\<close> ends, and the exit status of the interpreter: 0 when the
  script runs to its end, the argument of \<open>sys.exit\<close>, 1 after an uncaught exception.
\<close>

datatype py_exception =
  UnicodeDecodeError | JSONDecodeError | AttributeError | UnicodeEncodeError | OtherError

datatype main_result = MainReturned | SysExit nat | Uncaught py_exception

fun exit_status :: "main_result \<Rightarrow> nat" where
  "exit_status MainReturned = 0"
| "exit_status (SysExit n) = n"
| "exit_status (Uncaught e) = 1"

text \<open>How the frame loop of the publisher is left.\<close>

datatype loop_end = QuitKey | KeyboardInterrupt | LoopException py_exception

text \<open>
  \<open>main\<close> of publisher.py from the broker connection on: a failed \<open>client.connect\<close>
  is printed and \<open>main\<close> returns; a camera that is not opened is printed and \<open>main\<close>
  returns; the loop is left by \<open>break\<close>, or by an exception that one of the two
  handlers catches, and the \<open>finally\<close> block releases the resources.
\<close>

definition publisher_main :: "bool \<Rightarrow> bool \<Rightarrow> loop_end \<Rightarrow> main_result" where
  "publisher_main connect_raises is_opened le =
     (if connect_raises then MainReturned
      else if \<not> is_opened then MainReturned
      else (case le of
              QuitKey \<Rightarrow> MainReturned
            | KeyboardInterrupt \<Rightarrow> MainReturned
            | LoopException e \<Rightarrow> MainReturned))"

section \<open>Monitor subscriber (subscriber.py)\<close>

subsection \<open>The message handler\<close>

text \<open>The defaults of the two \<open>data.get\<close> calls, as UTF-8 bytes: four CJK characters
  each, "unknown time" and "unknown location".\<close>

definition UNKNOWN_TIME :: string where
  "UNKNOWN_TIME = [CHR 0xE6, CHR 0x9C, CHR 0xAA, CHR 0xE7, CHR 0x9F, CHR 0xA5,
                   CHR 0xE6, CHR 0x99, CHR 0x82, CHR 0xE9, CHR 0x96, CHR 0x93]"

definition UNKNOWN_LOCATION :: string where
  "UNKNOWN_LOCATION = [CHR 0xE6, CHR 0x9C, CHR 0xAA, CHR 0xE7, CHR 0x9F, CHR 0xA5,
                       CHR 0xE4, CHR 0xBD, CHR 0x8D, CHR 0xE7, CHR 0xBD, CHR 0xAE]"

text \<open>
  \<^verbatim>\<open>json.loads(msg.payload.decode("utf-8"))\<close> is library code: a parameter that maps
  the raw payload to the exception it raises or to the document it returns.
\<close>

type_synonym loads = "string \<Rightarrow> py_exception + json"

text \<open>\<open>d.get(k, default)\<close> on a dict.\<close>

definition dict_get :: "(string \<times> json) list \<Rightarrow> string \<Rightarrow> json \<Rightarrow> json" where
  "dict_get d k dflt = (case map_of d k of Some v \<Rightarrow> v | None \<Rightarrow> dflt)"

text \<open>
  Lines 76-78: \<open>status\<close>, \<open>ts\<close> and \<open>location\<close>. Only a dict has a \<open>get\<close> method;
  on any other document the attribute lookup raises \<open>AttributeError\<close>.
\<close>

fun read_fields :: "json \<Rightarrow> py_exception + (json \<times> json \<times> json)" where
  "read_fields (JObj d) =
     Inr (dict_get d ''status'' (JStr []),
          dict_get d ''timestamp'' (JStr UNKNOWN_TIME),
          dict_get d ''location'' (JStr UNKNOWN_LOCATION))"
| "read_fields v = Inl AttributeError"

text \<open>What the handler prints and signals.\<close>

datatype notice =
    ParseFailed py_exception   \<comment> \<open>the message of the \<open>except\<close> branch\<close>
  | Alert json json            \<comment> \<open>the red line, with \<open>location\<close> and \<open>ts\<close>\<close>
  | Beep                       \<comment> \<open>\<open>beep()\<close>\<close>
  | Info json                  \<comment> \<open>the line for a message that is not an alert, with \<open>data\<close>\<close>

text \<open>The \<open>str\<close> holds a lone surrogate.\<close>

fun has_surrogate :: "string \<Rightarrow> bool" where
  "has_surrogate (a # b # cs) =
     ((a = CHR 0xED \<and> (0xA0 :: nat) \<le> of_char b \<and> of_char b \<le> (0xBF :: nat))
      \<or> has_surrogate (b # cs))"
| "has_surrogate cs = False"

text \<open>
  \<open>print\<close> encodes its text for standard output, taken to be UTF-8 with strict error
  handling (the default), and raises \<open>UnicodeEncodeError\<close> on a lone surrogate. The
  f-string of line 82 formats \<open>location\<close> and \<open>ts\<close> with \<open>str\<close>: a \<open>str\<close> value goes
  into the line as it is, every other value through its \<open>repr\<close>, which escapes
  surrogates, as does the \<open>repr\<close> of the dict in line 85.
\<close>

definition unprintable :: "json \<Rightarrow> bool" where
  "unprintable v = (case v of JStr s \<Rightarrow> has_surrogate s | _ \<Rightarrow> False)"

text \<open>
  \<open>on_message\<close>: the notices of a call that returns, or the exception that leaves it.
  The \<open>try\<close> covers the parsing only.
\<close>

definition on_message :: "loads \<Rightarrow> string \<Rightarrow> py_exception + notice list" where
  "on_message ld payload =
     (case ld payload of
        Inl e \<Rightarrow> Inr [ParseFailed e]
      | Inr data \<Rightarrow>
          (case read_fields data of
             Inl e \<Rightarrow> Inl e
           | Inr (status, ts, location) \<Rightarrow>
               if status = JStr ''INTRUSION''
               then (if unprintable location \<or> unprintable ts
                     then Inl UnicodeEncodeError
                     else Inr [Alert location ts, Beep])
               else Inr [Info data]))"

subsection \<open>The codec formed by the two programs\<close>

text \<open>
  \<open>json.dumps\<close> followed by the client's UTF-8 encoding is library code as well.
  \<open>encode\<close> is the wire message of \<open>publish_alert\<close>; \<open>decode\<close> is lines 70-78 of
  \<open>on_message\<close>, the parse and the three field reads.
\<close>

type_synonym dumps = "json \<Rightarrow> string"

definition encode :: "dumps \<Rightarrow> string \<Rightarrow> string \<Rightarrow> string \<Rightarrow> string" where
  "encode dp st ts loc = dp (alert_payload st ts loc)"

definition decode :: "loads \<Rightarrow> string \<Rightarrow> py_exception + (json \<times> json \<times> json)" where
  "decode ld payload =
     (case ld payload of Inl e \<Rightarrow> Inl e | Inr data \<Rightarrow> read_fields data)"

subsection \<open>Process exit of the subscriber\<close>

text \<open>How \<open>client.loop_forever()\<close> is left.\<close>

datatype listen_end = ListenInterrupt | ListenRaised py_exception | ListenReturned

text \<open>
  \<open>main\<close> of subscriber.py: a failed \<open>client.connect\<close> is printed and followed by
  \<open>sys.exit(1)\<close>; \<open>KeyboardInterrupt\<close> is caught; any other exception passes the
  \<open>finally\<close> block and leaves \<open>main\<close>.
\<close>

definition subscriber_main :: "bool \<Rightarrow> listen_end \<Rightarrow> main_result" where
  "subscriber_main connect_raises le =
     (if connect_raises then SysExit 1
      else (case le of
              ListenInterrupt \<Rightarrow> MainReturned
            | ListenRaised e \<Rightarrow> Uncaught e
            | ListenReturned \<Rightarrow> MainReturned))"

section \<open>Sample inputs\<close>

text \<open>A class table with the entry of the COCO models for class 0, and class 16.\<close>

definition sample_names :: names where
  "sample_names = [0 \<mapsto> ''person'', 16 \<mapsto> ''dog'']"

text \<open>A detection in the middle of the zone, of a given class and confidence.\<close>

definition sample_box :: "real \<Rightarrow> real \<Rightarrow> box" where
  "sample_box c p = \<lparr>cls = c, conf = p, xyxy = (2007 / 10, 1502 / 10, 4009 / 10, 3505 / 10)\<rparr>"

text \<open>A confident person whose box straddles the left edge of the zone.\<close>

definition edge_box :: box where
  "edge_box = \<lparr>cls = 0, conf = 9 / 10, xyxy = (999 / 10, 200, 1009 / 10, 300)\<rparr>"

text \<open>A frame with one confident person in the zone, at a given time and with a given
  outcome of the publish call.\<close>

definition intrusion_frame :: "real \<Rightarrow> publish_outcome \<Rightarrow> frame" where
  "intrusion_frame t out =
     \<lparr>ret = True, results = [[sample_box 0 (9 / 10)]], now = t,
      ts_str = ''2024-01-01 00:00:00'', imwrite_raises = False, publish = out, quit = False\<rparr>"

text \<open>
  Four raw payloads, the documents \<open>json.loads\<close> returns for them, and the text
  \<open>json.dumps\<close> returns for the first document. \<open>sample_loads\<close> and
  \<open>sample_dumps\<close> are the library on these inputs only.
\<close>

definition sample_wire :: string where
  \<open>sample_wire =
     ''{"status": "INTRUSION", "timestamp": "2024-01-01 00:00:00", "location": "Living Room"}''\<close>

definition ok_wire :: string where
  \<open>ok_wire = ''{"status": "OK"}''\<close>

definition no_status_wire :: string where
  \<open>no_status_wire = ''{"timestamp": "2024-01-01 00:00:00"}''\<close>

definition array_wire :: string where
  \<open>array_wire = ''[]''\<close>

definition sample_loads :: loads where
  "sample_loads s =
     (if s = sample_wire
      then Inr (alert_payload ''INTRUSION'' ''2024-01-01 00:00:00'' ''Living Room'')
      else if s = ok_wire then Inr (JObj [(''status'', JStr ''OK'')])
      else if s = no_status_wire
      then Inr (JObj [(''timestamp'', JStr ''2024-01-01 00:00:00'')])
      else if s = array_wire then Inr (JArr [])
      else Inl JSONDecodeError)"

definition sample_dumps :: dumps where
  "sample_dumps v =
     (if v = alert_payload ''INTRUSION'' ''2024-01-01 00:00:00'' ''Living Room''
      then sample_wire else [])"

section \<open>Geometry and intrusion flag: theorems\<close>

lemma scan_boxes_iff:
  "scan_boxes nm intrusion bs \<longleftrightarrow> intrusion \<or> (\<exists>b \<in> set bs. intruder nm b)"
  by (induction bs arbitrary: intrusion)
     (auto simp: intruder_def split: prod.splits)

lemma scan_results_iff:
  "scan_results nm intrusion rs \<longleftrightarrow>
     intrusion \<or> (\<exists>r \<in> set rs. \<exists>b \<in> set r. intruder nm b)"
  by (induction rs arbitrary: intrusion) (auto simp: scan_boxes_iff)

text \<open>
  C3. The containment test is true exactly for the points of the closed rectangle
  \<open>[x1, x2] \<times> [y1, y2]\<close>; for a rectangle with \<open>x1 \<le> x2\<close> and \<open>y1 \<le> y2\<close> every
  point on an edge, and so every corner, is inside. The function is total and has no
  error result.
\<close>

theorem point_in_rect_closed_rectangle:
  "(point_in_rect cx cy x1 y1 x2 y2 \<longleftrightarrow>
      (cx, cy) \<in> {real_of_int x1 .. real_of_int x2} \<times> {real_of_int y1 .. real_of_int y2})
   \<and> (x1 \<le> x2 \<and> y1 \<le> y2 \<longrightarrow>
        (real_of_int x1 \<le> cx \<and> cx \<le> real_of_int x2 \<longrightarrow>
           point_in_rect cx (real_of_int y1) x1 y1 x2 y2 \<and>
           point_in_rect cx (real_of_int y2) x1 y1 x2 y2)
      \<and> (real_of_int y1 \<le> cy \<and> cy \<le> real_of_int y2 \<longrightarrow>
           point_in_rect (real_of_int x1) cy x1 y1 x2 y2 \<and>
           point_in_rect (real_of_int x2) cy x1 y1 x2 y2)
      \<and> point_in_rect (real_of_int x1) (real_of_int y1) x1 y1 x2 y2
      \<and> point_in_rect (real_of_int x1) (real_of_int y2) x1 y1 x2 y2
      \<and> point_in_rect (real_of_int x2) (real_of_int y1) x1 y1 x2 y2
      \<and> point_in_rect (real_of_int x2) (real_of_int y2) x1 y1 x2 y2)"
  by (simp add: point_in_rect_def)

theorem point_in_rect_closed_rectangle_witness:
  "(100::int) \<le> 500 \<and> (100::int) \<le> 400
   \<and> point_in_rect 300 250 100 100 500 400
   \<and> point_in_rect 300 100 100 100 500 400
   \<and> point_in_rect 500 250 100 100 500 400
   \<and> point_in_rect 500 400 100 100 500 400
   \<and> \<not> point_in_rect 501 250 100 100 500 400"
  using point_in_rect_closed_rectangle [of 300 250 100 100 500 400]
        point_in_rect_closed_rectangle [of 501 250 100 100 500 400]
  by simp

lemma py_int_truncates:
  "real_of_int \<bar>py_int x\<bar> \<le> \<bar>x\<bar> \<and> \<bar>x\<bar> < real_of_int \<bar>py_int x\<bar> + 1
   \<and> (0 \<le> x \<longrightarrow> 0 \<le> py_int x) \<and> (x \<le> 0 \<longrightarrow> py_int x \<le> 0)"
  unfolding py_int_def by (cases "0 \<le> x") (simp; linarith)+

lemma intruder_explicit:
  "intruder nm b \<longleftrightarrow>
     (nm (py_int (cls b)) = Some ''person'' \<and> 1 / 2 \<le> conf b \<and>
      (case xyxy b of (a1, b1, a2, b2) \<Rightarrow>
        100 \<le> (real_of_int (py_int a1) + real_of_int (py_int a2)) / 2 \<and>
        (real_of_int (py_int a1) + real_of_int (py_int a2)) / 2 \<le> 500 \<and>
        100 \<le> (real_of_int (py_int b1) + real_of_int (py_int b2)) / 2 \<and>
        (real_of_int (py_int b1) + real_of_int (py_int b2)) / 2 \<le> 400))"
  by (cases "xyxy b")
     (auto simp: intruder_def label_of_def center_def bbox_def point_in_rect_def
        CONF_THRESHOLD_def ROI_X1_def ROI_Y1_def ROI_X2_def ROI_Y2_def
        split: option.splits)

text \<open>
  C4 (as amended). \<open>py_int\<close> truncates towards zero. Starting from
  \<open>intrusion = False\<close>, the two nested loops flag the frame exactly when some detection
  has a class id whose entry in the class table is \<open>person\<close>, a confidence of at least
  0.5, and corners \<open>(a1, b1)\<close>, \<open>(a2, b2)\<close> such that the midpoint of the truncated
  corners, \<open>((int(a1) + int(a2)) / 2, (int(b1) + int(b2)) / 2)\<close>, lies in the zone
  \<open>[100, 500] \<times> [100, 400]\<close>; detections that fail the label or the confidence filter
  never set the flag.
\<close>

theorem intrusion_flag_iff:
  "(real_of_int \<bar>py_int x\<bar> \<le> \<bar>x\<bar> \<and> \<bar>x\<bar> < real_of_int \<bar>py_int x\<bar> + 1
      \<and> (0 \<le> x \<longrightarrow> 0 \<le> py_int x) \<and> (x \<le> 0 \<longrightarrow> py_int x \<le> 0))
   \<and> (scan_results nm False rs \<longleftrightarrow>
      (\<exists>r \<in> set rs. \<exists>b \<in> set r.
         nm (py_int (cls b)) = Some ''person'' \<and> 1 / 2 \<le> conf b \<and>
         (case xyxy b of (a1, b1, a2, b2) \<Rightarrow>
           100 \<le> (real_of_int (py_int a1) + real_of_int (py_int a2)) / 2 \<and>
           (real_of_int (py_int a1) + real_of_int (py_int a2)) / 2 \<le> 500 \<and>
           100 \<le> (real_of_int (py_int b1) + real_of_int (py_int b2)) / 2 \<and>
           (real_of_int (py_int b1) + real_of_int (py_int b2)) / 2 \<le> 400)))
   \<and> ((\<forall>r \<in> set rs. \<forall>b \<in> set r. nm (py_int (cls b)) \<noteq> Some ''person'' \<or> conf b < 1 / 2)
        \<longrightarrow> \<not> scan_results nm False rs)"
proof -
  have flag: "scan_results nm False rs \<longleftrightarrow> (\<exists>r \<in> set rs. \<exists>b \<in> set r. intruder nm b)"
    by (simp add: scan_results_iff)
  have filtered: "\<not> intruder nm b"
    if "nm (py_int (cls b)) \<noteq> Some ''person'' \<or> conf b < 1 / 2" for b
    using that by (auto simp: intruder_explicit)
  have c2: "scan_results nm False rs \<longleftrightarrow>
      (\<exists>r \<in> set rs. \<exists>b \<in> set r.
         nm (py_int (cls b)) = Some ''person'' \<and> 1 / 2 \<le> conf b \<and>
         (case xyxy b of (a1, b1, a2, b2) \<Rightarrow>
           100 \<le> (real_of_int (py_int a1) + real_of_int (py_int a2)) / 2 \<and>
           (real_of_int (py_int a1) + real_of_int (py_int a2)) / 2 \<le> 500 \<and>
           100 \<le> (real_of_int (py_int b1) + real_of_int (py_int b2)) / 2 \<and>
           (real_of_int (py_int b1) + real_of_int (py_int b2)) / 2 \<le> 400))"
    unfolding flag intruder_explicit ..
  have c3: "(\<forall>r \<in> set rs. \<forall>b \<in> set r. nm (py_int (cls b)) \<noteq> Some ''person'' \<or> conf b < 1 / 2)
        \<longrightarrow> \<not> scan_results nm False rs"
    unfolding flag using filtered by blast
  show ?thesis
    by (rule conjI [OF py_int_truncates conjI [OF c2 c3]])
qed

text \<open>
  Witness: two result lists where only the second holds a confident person in the zone;
  and one list with a dog and a person below the threshold.
\<close>

theorem intrusion_flag_iff_witness:
  "scan_results sample_names False [[sample_box 16 (9 / 10)], [sample_box 0 (9 / 10)]]
   \<and> \<not> scan_results sample_names False [[sample_box 16 (9 / 10), sample_box 0 (3 / 10)]]"
  using intrusion_flag_iff [of 0 sample_names "[[sample_box 16 (9 / 10)], [sample_box 0 (9 / 10)]]"]
        intrusion_flag_iff [of 0 sample_names "[[sample_box 16 (9 / 10), sample_box 0 (3 / 10)]]"]
  by (simp add: sample_names_def sample_box_def label_of_def py_int_def center_def bbox_def
        point_in_rect_def CONF_THRESHOLD_def ROI_X1_def ROI_Y1_def ROI_X2_def ROI_Y2_def)

text \<open>
  C4 as stated fails: a confident person whose box reaches from 99.9 to 100.9 has the
  midpoint (100.4, 250) inside the zone, but the program tests the midpoint of the
  truncated corners 99 and 100, which is 99.5, and does not flag the frame.
\<close>

theorem float_midpoint_counterexample:
  "label_of sample_names edge_box = ''person''
   \<and> CONF_THRESHOLD \<le> conf edge_box
   \<and> xyxy edge_box = (999 / 10, 200, 1009 / 10, 300)
   \<and> point_in_rect ((999 / 10 + 1009 / 10) / 2) ((200 + 300) / 2) ROI_X1 ROI_Y1 ROI_X2 ROI_Y2
   \<and> \<not> scan_results sample_names False [[edge_box]]"
  by (simp add: edge_box_def sample_names_def label_of_def py_int_def center_def bbox_def
        point_in_rect_def CONF_THRESHOLD_def ROI_X1_def ROI_Y1_def ROI_X2_def ROI_Y2_def)

section \<open>The cooldown gate and the frame loop: theorems\<close>

lemma dispatch_times_append:
  "dispatch_times (es @ es') = dispatch_times es @ dispatch_times es'"
  by (induction es rule: dispatch_times.induct) simp_all

lemma dispatch_times_publish_alert:
  "dispatch_times (fst (publish_alert ts out ls)) = []"
  by (simp add: publish_alert_def split: publish_outcome.splits)

lemma frame_step_dispatch:
  assumes "ret f" "scan_results nm False (results f)" "cooldown_elapsed ls (now f)"
  shows "fst (frame_step nm ls f) = Some (snd (publish_alert (ts_str f) (publish f) ls))"
    and "dispatch_times (fst (snd (frame_step nm ls f))) = [now f]"
    and "snd (snd (frame_step nm ls f)) = quit f"
  using assms
  by (simp_all add: frame_step_def dispatch_times_publish_alert split: prod.splits)
     (metis dispatch_times_publish_alert fst_conv)+

lemma frame_step_skip:
  assumes "\<not> (ret f \<and> scan_results nm False (results f) \<and> cooldown_elapsed ls (now f))"
  shows "fst (frame_step nm ls f) = ls"
    and "fst (snd (frame_step nm ls f)) = []"
  using assms by (auto simp: frame_step_def)

lemma sample_intrusion: "scan_results sample_names False [[sample_box 0 (9 / 10)]]"
  by (simp add: sample_names_def sample_box_def label_of_def py_int_def center_def bbox_def
      point_in_rect_def CONF_THRESHOLD_def ROI_X1_def ROI_Y1_def ROI_X2_def ROI_Y2_def)


lemma main_loop_Cons_dispatch:
  assumes "ret f" "scan_results nm False (results f)" "cooldown_elapsed ls (now f)"
    and "publish f = Published t"
  shows "dispatch_times (snd (main_loop nm ls (f # fs))) =
           now f # (if quit f then [] else dispatch_times (snd (main_loop nm (Some t) fs)))"
    and "fst (main_loop nm ls (f # fs)) =
           (if quit f then Some t else fst (main_loop nm (Some t) fs))"
  using assms
  by (simp_all add: frame_step_def publish_alert_def dispatch_times_append split: prod.splits)

lemma main_loop_Cons_skip:
  assumes "\<not> (ret f \<and> scan_results nm False (results f) \<and> cooldown_elapsed ls (now f))"
  shows "main_loop nm ls (f # fs) =
           (if ret f \<and> quit f then (ls, []) else main_loop nm ls fs)"
  using assms by (auto simp: frame_step_def split: prod.splits)

lemma main_loop_spacing:
  assumes "\<forall>f \<in> set fs. publish_returns f"
  shows "spaced (dispatch_times (snd (main_loop nm ls fs))) \<and>
         (\<forall>d \<in> set (dispatch_times (snd (main_loop nm ls fs))).
            \<forall>l. ls = Some l \<longrightarrow> COOLDOWN_SECONDS \<le> d - l)"
  using assms
proof (induction fs arbitrary: ls)
  case Nil
  show ?case by (simp add: spaced_def)
next
  case (Cons f fs)
  have rest: "\<forall>g \<in> set fs. publish_returns g"
    using Cons.prems by simp
  show ?case
  proof (cases "ret f \<and> scan_results nm False (results f) \<and> cooldown_elapsed ls (now f)")
    case False
    have eq: "main_loop nm ls (f # fs) =
                (if ret f \<and> quit f then (ls, []) else main_loop nm ls fs)"
      by (rule main_loop_Cons_skip [OF False])
    show ?thesis
      unfolding eq using Cons.IH [OF rest, of ls]
      by (auto simp: spaced_def)
  next
    case True
    from Cons.prems obtain t where t: "publish f = Published t" "now f \<le> t"
      by (auto simp: publish_returns_def split: publish_outcome.splits)
    have gate: "\<forall>l. ls = Some l \<longrightarrow> COOLDOWN_SECONDS \<le> now f - l"
      using True by (auto simp: cooldown_elapsed_def)
    have later: "\<forall>d \<in> set (dispatch_times (snd (main_loop nm (Some t) fs))).
                   COOLDOWN_SECONDS \<le> d - t"
      using Cons.IH [OF rest, of "Some t"] by simp
    have sp: "spaced (dispatch_times (snd (main_loop nm (Some t) fs)))"
      using Cons.IH [OF rest, of "Some t"] by simp
    have times: "dispatch_times (snd (main_loop nm ls (f # fs))) =
           now f # (if quit f then [] else dispatch_times (snd (main_loop nm (Some t) fs)))"
      using main_loop_Cons_dispatch(1) [of f nm ls t fs] True t(1) by blast
    have pos: "0 \<le> COOLDOWN_SECONDS"
      by (simp add: COOLDOWN_SECONDS_def)
    show ?thesis
      unfolding times using gate later sp t(2) pos
      by (auto simp: spaced_def)
  qed
qed


lemma main_loop_no_intrusion:
  "\<forall>g \<in> set fs. \<not> (ret g \<and> scan_results nm False (results g)) \<Longrightarrow>
   main_loop nm ls fs = (ls, [])"
proof (induction fs)
  case Nil
  show ?case by simp
next
  case (Cons f fs)
  have skip: "\<not> (ret f \<and> scan_results nm False (results f) \<and> cooldown_elapsed ls (now f))"
    using Cons.prems by auto
  have eq: "main_loop nm ls (f # fs) =
              (if ret f \<and> quit f then (ls, []) else main_loop nm ls fs)"
    by (rule main_loop_Cons_skip [OF skip])
  show ?case
    unfolding eq using Cons by simp
qed

lemma main_loop_first_dispatch:
  assumes "ret f" "scan_results nm False (results f)" "cooldown_elapsed ls (now f)"
  shows "\<exists>ds. dispatch_times (snd (main_loop nm ls (f # gs))) = now f # ds"
  using assms
  by (auto simp: frame_step_def publish_alert_def dispatch_times_append
           split: prod.splits publish_outcome.splits)

lemma main_loop_quiet_prefix:
  assumes "\<forall>g \<in> set fs. \<not> (ret g \<and> scan_results nm False (results g)) \<and> \<not> (ret g \<and> quit g)"
  shows "main_loop nm ls (fs @ hs) = main_loop nm ls hs"
  using assms
proof (induction fs)
  case Nil
  show ?case by simp
next
  case (Cons f fs)
  have skip: "\<not> (ret f \<and> scan_results nm False (results f) \<and> cooldown_elapsed ls (now f))"
    using Cons.prems by auto
  have eq: "main_loop nm ls (f # (fs @ hs)) =
              (if ret f \<and> quit f then (ls, []) else main_loop nm ls (fs @ hs))"
    by (rule main_loop_Cons_skip [OF skip])
  show ?case
    using eq Cons by simp
qed

lemma frame_step_gate:
  assumes "ret f" "scan_results nm False (results f)"
  shows "if ls = None \<or> (\<exists>l. ls = Some l \<and> 5 \<le> now f - l)
         then dispatch_times (fst (snd (frame_step nm ls f))) = [now f]
         else frame_step nm ls f = (ls, [], quit f)"
  using assms
  by (cases ls)
     (auto simp: frame_step_def cooldown_elapsed_def COOLDOWN_SECONDS_def publish_alert_def
           split: prod.splits publish_outcome.splits)

lemma frame_step_quiet:
  assumes "\<not> (ret f \<and> scan_results nm False (results f))"
  shows "fst (frame_step nm ls f) = ls \<and> fst (snd (frame_step nm ls f)) = []"
  using assms by (auto simp: frame_step_def)

text \<open>
  C1 (as amended). \<open>COOLDOWN_SECONDS\<close> is 5. A frame with an intrusion is dispatched
  exactly when the stored timestamp is unset or the frame's \<open>now\<close> minus it is at least
  5; when it is rejected the stored timestamp is unchanged and nothing is done; a frame
  without an intrusion is never dispatched. The first intrusion after startup is
  dispatched. In a run in which every publish call returns, at a clock reading not
  before the frame's, no two dispatches are less than 5 apart.
\<close>

theorem cooldown_gate_rate_limit:
  "COOLDOWN_SECONDS = 5
   \<and> (ret f \<and> scan_results nm False (results f) \<longrightarrow>
        (if ls = None \<or> (\<exists>l. ls = Some l \<and> 5 \<le> now f - l)
         then dispatch_times (fst (snd (frame_step nm ls f))) = [now f]
         else frame_step nm ls f = (ls, [], quit f)))
   \<and> (\<not> (ret f \<and> scan_results nm False (results f)) \<longrightarrow>
        fst (frame_step nm ls f) = ls \<and> fst (snd (frame_step nm ls f)) = [])
   \<and> ((\<forall>g \<in> set fs. \<not> (ret g \<and> scan_results nm False (results g)) \<and> \<not> (ret g \<and> quit g))
        \<and> ret f \<and> scan_results nm False (results f) \<longrightarrow>
        (\<exists>ds. dispatch_times (snd (main_loop nm None (fs @ f # gs))) = now f # ds))
   \<and> ((\<forall>g \<in> set hs. \<exists>t. publish g = Published t \<and> now g \<le> t) \<longrightarrow>
        sorted_wrt (\<lambda>a b. 5 \<le> b - a) (dispatch_times (snd (main_loop nm None hs))))"
proof -
  have cd: "COOLDOWN_SECONDS = 5"
    by (simp add: COOLDOWN_SECONDS_def)
  have gate: "ret f \<and> scan_results nm False (results f) \<longrightarrow>
        (if ls = None \<or> (\<exists>l. ls = Some l \<and> 5 \<le> now f - l)
         then dispatch_times (fst (snd (frame_step nm ls f))) = [now f]
         else frame_step nm ls f = (ls, [], quit f))"
    using frame_step_gate [of f nm ls] by blast
  have quiet: "\<not> (ret f \<and> scan_results nm False (results f)) \<longrightarrow>
        fst (frame_step nm ls f) = ls \<and> fst (snd (frame_step nm ls f)) = []"
    using frame_step_quiet [of f nm ls] by blast
  have first: "(\<forall>g \<in> set fs. \<not> (ret g \<and> scan_results nm False (results g)) \<and> \<not> (ret g \<and> quit g))
        \<and> ret f \<and> scan_results nm False (results f) \<longrightarrow>
        (\<exists>ds. dispatch_times (snd (main_loop nm None (fs @ f # gs))) = now f # ds)"
  proof
    assume a: "(\<forall>g \<in> set fs. \<not> (ret g \<and> scan_results nm False (results g)) \<and> \<not> (ret g \<and> quit g))
        \<and> ret f \<and> scan_results nm False (results f)"
    then have quiet: "\<forall>g \<in> set fs. \<not> (ret g \<and> scan_results nm False (results g)) \<and> \<not> (ret g \<and> quit g)"
      and f: "ret f" "scan_results nm False (results f)"
      by blast+
    have "main_loop nm None (fs @ f # gs) = main_loop nm None (f # gs)"
      by (rule main_loop_quiet_prefix [OF quiet])
    moreover have "cooldown_elapsed None (now f)"
      by (simp add: cooldown_elapsed_def)
    ultimately show "\<exists>ds. dispatch_times (snd (main_loop nm None (fs @ f # gs))) = now f # ds"
      using main_loop_first_dispatch [OF f, of None gs] by simp
  qed
  have rate: "(\<forall>g \<in> set hs. \<exists>t. publish g = Published t \<and> now g \<le> t) \<longrightarrow>
        sorted_wrt (\<lambda>a b. 5 \<le> b - a) (dispatch_times (snd (main_loop nm None hs)))"
  proof
    assume "\<forall>g \<in> set hs. \<exists>t. publish g = Published t \<and> now g \<le> t"
    then have "\<forall>g \<in> set hs. publish_returns g"
      by (auto simp: publish_returns_def)
    then show "sorted_wrt (\<lambda>a b. 5 \<le> b - a) (dispatch_times (snd (main_loop nm None hs)))"
      using main_loop_spacing [of hs nm None] by (simp add: spaced_def COOLDOWN_SECONDS_def)
  qed
  show ?thesis
    by (rule conjI [OF cd conjI [OF gate conjI [OF quiet conjI [OF first rate]]]])
qed

lemma intrusion_frame_fields:
  "ret (intrusion_frame t out)"
  "now (intrusion_frame t out) = t"
  "publish (intrusion_frame t out) = out"
  "\<not> quit (intrusion_frame t out)"
  "\<not> imwrite_raises (intrusion_frame t out)"
  "ts_str (intrusion_frame t out) = ''2024-01-01 00:00:00''"
  "scan_results sample_names False (results (intrusion_frame t out))"
  using sample_intrusion by (simp_all add: intrusion_frame_def)

text \<open>
  Witness: with a timestamp of 0 stored, an intrusion at 5 is dispatched and one at 2 is
  rejected; a frame without detections is not dispatched; the first intrusion of a run is
  dispatched; intrusions at 0, 2, 4 and 6 whose publish calls return.
\<close>

theorem cooldown_gate_rate_limit_witness:
  "dispatch_times (fst (snd (frame_step sample_names (Some 0) (intrusion_frame 5 (Published 5))))) = [5]
   \<and> frame_step sample_names (Some 0) (intrusion_frame 2 (Published 2)) = (Some 0, [], False)
   \<and> fst (snd (frame_step sample_names (Some 0)
                  ((intrusion_frame 7 (Published 7))\<lparr>results := []\<rparr>))) = []
   \<and> (\<exists>ds. dispatch_times (snd (main_loop sample_names None
         [intrusion_frame 0 (Published 0), intrusion_frame 2 (Published 2)])) = 0 # ds)
   \<and> sorted_wrt (\<lambda>a b. (5::real) \<le> b - a) (dispatch_times (snd (main_loop sample_names None
        [intrusion_frame 0 (Published 0), intrusion_frame 2 (Published 2),
         intrusion_frame 4 (Published 4), intrusion_frame 6 (Published 6)])))"
  using cooldown_gate_rate_limit [where ls = "Some 0" and f = "intrusion_frame 5 (Published 5)"
          and nm = sample_names and fs = "[]" and gs = "[]" and hs = "[]"]
        cooldown_gate_rate_limit [where ls = "Some 0" and f = "intrusion_frame 2 (Published 2)"
          and nm = sample_names and fs = "[]" and gs = "[]"
          and hs = "[intrusion_frame 0 (Published 0), intrusion_frame 2 (Published 2),
                     intrusion_frame 4 (Published 4), intrusion_frame 6 (Published 6)]"]
        cooldown_gate_rate_limit [where ls = "Some 0"
          and f = "(intrusion_frame 7 (Published 7))\<lparr>results := []\<rparr>"
          and nm = sample_names and fs = "[]" and gs = "[]" and hs = "[]"]
        cooldown_gate_rate_limit [where f = "intrusion_frame 0 (Published 0)"
          and nm = sample_names and fs = "[]" and gs = "[intrusion_frame 2 (Published 2)]"
          and hs = "[]"]
  by (simp add: intrusion_frame_fields)

text \<open>
  The scenario of the specification: intrusions at 0, 2, 4 and 6, every publish call
  returning, give dispatches at 0 and 6.
\<close>

lemma scenario_four_intrusions:
  "dispatch_times (snd (main_loop sample_names None
        [intrusion_frame 0 (Published 0), intrusion_frame 2 (Published 2),
         intrusion_frame 4 (Published 4), intrusion_frame 6 (Published 6)])) = [0, 6]"
  by (simp add: intrusion_frame_fields frame_step_def publish_alert_def cooldown_elapsed_def COOLDOWN_SECONDS_def)

text \<open>
  C1 as stated fails: a publish call that raises leaves the stored timestamp where it
  was, so the intrusions at 1005 and 1006 are both dispatched.
\<close>

theorem rate_limit_counterexample:
  "dispatch_times (snd (main_loop sample_names None
     [intrusion_frame 1000 (Published 1000), intrusion_frame 1005 PublishRaised,
      intrusion_frame 1006 PublishRaised])) = [1000, 1005, 1006]
   \<and> \<not> spaced [1000, 1005, 1006]"
  by (simp add: intrusion_frame_fields frame_step_def publish_alert_def cooldown_elapsed_def COOLDOWN_SECONDS_def spaced_def)

text \<open>
  C2 (as amended). When the gate accepts, the stored timestamp after the dispatch does
  not depend on the outcome of the evidence write. It becomes the clock reading taken
  after the publish call when that call returns. When the call raises, the failure is
  printed, nothing is published, the stored timestamp keeps its previous value (0.0 if it
  was unset), and the loop goes on with the next frame unless the quit key was read.
\<close>

theorem dispatch_state_update:
  "ret f \<and> scan_results nm False (results f) \<and> cooldown_elapsed ls (now f) \<longrightarrow>
     fst (frame_step nm ls f) =
       Some (case publish f of
               Published t \<Rightarrow> t
             | PublishRaised \<Rightarrow> (case ls of Some l \<Rightarrow> l | None \<Rightarrow> 0))
     \<and> fst (frame_step nm ls (f\<lparr>imwrite_raises := b\<rparr>)) = fst (frame_step nm ls f)
     \<and> (publish f = PublishRaised \<longrightarrow>
          PublishFailed \<in> set (fst (snd (frame_step nm ls f))) \<and>
          (\<forall>p. Publish p \<notin> set (fst (snd (frame_step nm ls f)))))
     \<and> snd (snd (frame_step nm ls f)) = quit f
     \<and> (\<not> quit f \<longrightarrow>
          main_loop nm ls (f # fs) =
            (fst (main_loop nm (fst (frame_step nm ls f)) fs),
             fst (snd (frame_step nm ls f)) @ snd (main_loop nm (fst (frame_step nm ls f)) fs)))"
  by (auto simp: frame_step_def publish_alert_def
           split: prod.splits publish_outcome.splits option.splits)

text \<open>
  Witness: a stored timestamp of 100 and an intrusion at 105, with a publish call that
  returns at 106 and with one that raises.
\<close>

theorem dispatch_state_update_witness:
  "fst (frame_step sample_names (Some 100) (intrusion_frame 105 (Published 106))) = Some 106
   \<and> fst (frame_step sample_names (Some 100) (intrusion_frame 105 PublishRaised)) = Some 100
   \<and> fst (frame_step sample_names (Some 100)
            ((intrusion_frame 105 PublishRaised)\<lparr>imwrite_raises := True\<rparr>)) = Some 100
   \<and> PublishFailed \<in> set (fst (snd (frame_step sample_names (Some 100)
                                      (intrusion_frame 105 PublishRaised))))
   \<and> fst (main_loop sample_names (Some 100)
            [intrusion_frame 105 PublishRaised, intrusion_frame 107 (Published 108)]) = Some 108"
  using dispatch_state_update [where f = "intrusion_frame 105 (Published 106)" and ls = "Some 100"
          and nm = sample_names and b = True and fs = "[]"]
        dispatch_state_update [where f = "intrusion_frame 105 PublishRaised" and ls = "Some 100"
          and nm = sample_names and b = True and fs = "[intrusion_frame 107 (Published 108)]"]
        dispatch_state_update [where f = "intrusion_frame 107 (Published 108)" and ls = "Some 100"
          and nm = sample_names and b = True and fs = "[]"]
  by (simp add: intrusion_frame_fields cooldown_elapsed_def COOLDOWN_SECONDS_def)

text \<open>
  C2 as stated fails: the gate accepts at 105, the publish call raises, and the stored
  timestamp is still 100; the intrusion at 106 is dispatched as well.
\<close>

theorem failed_publish_counterexample:
  "cooldown_elapsed (Some 100) 105
   \<and> frame_step sample_names (Some 100) (intrusion_frame 105 PublishRaised) =
       (Some 100, [Dispatch 105, EvidenceSaved, PublishFailed], False)
   \<and> dispatch_times (snd (main_loop sample_names (Some 100)
        [intrusion_frame 105 PublishRaised, intrusion_frame 106 PublishRaised])) = [105, 106]"
  by (simp add: intrusion_frame_fields frame_step_def publish_alert_def cooldown_elapsed_def
        COOLDOWN_SECONDS_def)

lemma main_loop_all_failing:
  assumes "\<forall>g \<in> set fs. publish g = PublishRaised \<and> COOLDOWN_SECONDS \<le> now g \<and> \<not> quit g"
  shows "main_loop nm (Some 0) fs =
           (Some 0, concat (map (\<lambda>g. if ret g \<and> scan_results nm False (results g)
                                   then [Dispatch (now g),
                                         if imwrite_raises g then EvidenceFailed else EvidenceSaved,
                                         PublishFailed]
                                   else []) fs))"
  using assms
  by (induction fs) (auto simp: frame_step_def publish_alert_def cooldown_elapsed_def)

lemma frame_step_is_set:
  "\<exists>l'. fst (frame_step nm (Some l) f) = Some l'"
  by (simp add: frame_step_def split: prod.splits)

lemma main_loop_is_set:
  "\<exists>l'. fst (main_loop nm (Some l) fs) = Some l'"
proof (induction fs arbitrary: l)
  case Nil
  show ?case by simp
next
  case (Cons f fs)
  obtain l' where l': "fst (frame_step nm (Some l) f) = Some l'"
    using frame_step_is_set by blast
  obtain evs stop where st: "frame_step nm (Some l) f = (Some l', evs, stop)"
    using l' by (cases "frame_step nm (Some l) f") simp
  show ?case
    using Cons.IH [of l'] by (auto simp: st split: prod.splits)
qed

lemma dispatch_times_all_failing:
  "dispatch_times (concat (map (\<lambda>g. if ret g \<and> scan_results nm False (results g)
                                   then [Dispatch (now g),
                                         if imwrite_raises g then EvidenceFailed else EvidenceSaved,
                                         PublishFailed]
                                   else []) fs)) =
   map now (filter (\<lambda>g. ret g \<and> scan_results nm False (results g)) fs)"
  by (induction fs) (simp_all add: dispatch_times_append)

lemma frame_step_epoch_gate:
  assumes "ret g" "scan_results nm False (results g)"
  shows "dispatch_times (fst (snd (frame_step nm (Some 0) g))) = [now g] \<longleftrightarrow> 5 \<le> now g"
  using assms
  by (auto simp: frame_step_def cooldown_elapsed_def COOLDOWN_SECONDS_def publish_alert_def
           split: prod.splits publish_outcome.splits)

text \<open>
  C10 (as amended). When the publish call raises, \<open>publish_alert\<close> returns the
  previous timestamp if there is one and 0.0 if there is none, so that a failed first
  publish sets the stored timestamp to 0.0. At 0.0 an intrusion is dispatched exactly
  when the clock reading is at least 5, through the elapsed-time test; while the
  publish calls keep raising the timestamp stays 0.0 and every intrusion at such a
  reading is dispatched; and a timestamp that is set is never unset again.
\<close>

theorem failed_first_publish_epoch:
  "snd (publish_alert ts PublishRaised (Some l)) = l
   \<and> snd (publish_alert ts PublishRaised None) = 0
   \<and> (ret f \<and> scan_results nm False (results f) \<and> publish f = PublishRaised \<longrightarrow>
        fst (frame_step nm None f) = Some 0)
   \<and> (ret g \<and> scan_results nm False (results g) \<longrightarrow>
        (dispatch_times (fst (snd (frame_step nm (Some 0) g))) = [now g] \<longleftrightarrow> 5 \<le> now g))
   \<and> ((\<forall>g \<in> set fs. publish g = PublishRaised \<and> 5 \<le> now g \<and> \<not> quit g) \<longrightarrow>
        fst (main_loop nm (Some 0) fs) = Some 0 \<and>
        dispatch_times (snd (main_loop nm (Some 0) fs)) =
          map now (filter (\<lambda>g. ret g \<and> scan_results nm False (results g)) fs))
   \<and> fst (main_loop nm (Some l) fs) \<noteq> None"
proof -
  have keep: "snd (publish_alert ts PublishRaised (Some l)) = l"
    and zero: "snd (publish_alert ts PublishRaised None) = 0"
    by (simp_all add: publish_alert_def)
  have first: "ret f \<and> scan_results nm False (results f) \<and> publish f = PublishRaised \<longrightarrow>
        fst (frame_step nm None f) = Some 0"
    by (simp add: frame_step_def publish_alert_def cooldown_elapsed_def)
  have gate: "ret g \<and> scan_results nm False (results g) \<longrightarrow>
        (dispatch_times (fst (snd (frame_step nm (Some 0) g))) = [now g] \<longleftrightarrow> 5 \<le> now g)"
    using frame_step_epoch_gate [of g nm] by blast
  have run: "(\<forall>g \<in> set fs. publish g = PublishRaised \<and> 5 \<le> now g \<and> \<not> quit g) \<longrightarrow>
        fst (main_loop nm (Some 0) fs) = Some 0 \<and>
        dispatch_times (snd (main_loop nm (Some 0) fs)) =
          map now (filter (\<lambda>g. ret g \<and> scan_results nm False (results g)) fs)"
    using main_loop_all_failing [of fs nm] dispatch_times_all_failing [of nm fs]
    by (simp add: COOLDOWN_SECONDS_def)
  have never_unset: "fst (main_loop nm (Some l) fs) \<noteq> None"
    using main_loop_is_set [of nm l fs] by auto
  show ?thesis
    by (rule conjI [OF keep conjI [OF zero conjI [OF first conjI [OF gate conjI [OF run never_unset]]]]])
qed

text \<open>
  Witness: a first intrusion at 1000 whose publish call raises, and two more at 1001 and
  1002.
\<close>

theorem failed_first_publish_epoch_witness:
  "fst (frame_step sample_names None (intrusion_frame 1000 PublishRaised)) = Some 0
   \<and> dispatch_times (fst (snd (frame_step sample_names (Some 0)
        (intrusion_frame 1001 PublishRaised)))) = [1001]
   \<and> dispatch_times (snd (main_loop sample_names (Some 0)
        [intrusion_frame 1001 PublishRaised, intrusion_frame 1002 PublishRaised])) = [1001, 1002]
   \<and> fst (main_loop sample_names (Some 0)
        [intrusion_frame 1001 PublishRaised, intrusion_frame 1002 PublishRaised]) = Some 0"
  using failed_first_publish_epoch [where f = "intrusion_frame 1000 PublishRaised"
          and g = "intrusion_frame 1001 PublishRaised"
          and nm = sample_names and l = 0
          and fs = "[intrusion_frame 1001 PublishRaised, intrusion_frame 1002 PublishRaised]"]
  by (simp add: intrusion_frame_fields)

text \<open>
  C10 as stated fails: after the failed publish at 1000 the publish at 1001 returns, and
  the intrusion at 1002 is rejected; and at 0.0 an intrusion at the clock reading 3 is
  rejected.
\<close>

theorem later_intrusion_counterexample:
  "dispatch_times (snd (main_loop sample_names None
     [intrusion_frame 1000 PublishRaised, intrusion_frame 1001 (Published 1001),
      intrusion_frame 1002 (Published 1002)])) = [1000, 1001]
   \<and> frame_step sample_names (Some 0) (intrusion_frame 3 PublishRaised) = (Some 0, [], False)"
  by (simp add: intrusion_frame_fields frame_step_def publish_alert_def cooldown_elapsed_def
        COOLDOWN_SECONDS_def)

section \<open>The message handler and the codec: theorems\<close>

lemma sample_wires_distinct:
  "ok_wire \<noteq> sample_wire" "no_status_wire \<noteq> sample_wire" "array_wire \<noteq> sample_wire"
  "no_status_wire \<noteq> ok_wire" "array_wire \<noteq> ok_wire" "array_wire \<noteq> no_status_wire"
  by (simp_all add: sample_wire_def ok_wire_def no_status_wire_def array_wire_def)

lemma sample_loads_values:
  "sample_loads sample_wire =
     Inr (alert_payload ''INTRUSION'' ''2024-01-01 00:00:00'' ''Living Room'')"
  "sample_loads ok_wire = Inr (JObj [(''status'', JStr ''OK'')])"
  "sample_loads no_status_wire = Inr (JObj [(''timestamp'', JStr ''2024-01-01 00:00:00'')])"
  "sample_loads array_wire = Inr (JArr [])"
  by (simp_all add: sample_loads_def sample_wires_distinct)

text \<open>
  What the handler does with a payload that parses to a dict: the alert line and the
  beep, once each, when the status is the string \<open>INTRUSION\<close> and the line can be
  printed; \<open>UnicodeEncodeError\<close> when it cannot; the informational line for every other
  status.
\<close>

lemma on_message_object:
  assumes "ld payload = Inr (JObj d)"
  shows "on_message ld payload =
     (if dict_get d ''status'' (JStr []) = JStr ''INTRUSION''
      then (if unprintable (dict_get d ''location'' (JStr UNKNOWN_LOCATION)) \<or>
               unprintable (dict_get d ''timestamp'' (JStr UNKNOWN_TIME))
            then Inl UnicodeEncodeError
            else Inr [Alert (dict_get d ''location'' (JStr UNKNOWN_LOCATION))
                            (dict_get d ''timestamp'' (JStr UNKNOWN_TIME)), Beep])
      else Inr [Info (JObj d)])"
  using assms by (simp add: on_message_def)

lemma on_message_non_object_raises:
  assumes "ld payload = Inr v" and "\<forall>d. v \<noteq> JObj d"
  shows "on_message ld payload = Inl AttributeError"
  using assms by (cases v) (simp_all add: on_message_def)

text \<open>
  C6 fails on the code: the payload \<open>[]\<close> parses, to a list, and the read of
  \<open>status\<close> outside the \<open>try\<close> raises \<open>AttributeError\<close>, which leaves the
  handler.
\<close>

theorem on_message_array_payload_raises:
  "sample_loads array_wire = Inr (JArr []) \<and>
   on_message sample_loads array_wire = Inl AttributeError"
  by (simp add: on_message_def sample_loads_values)

text \<open>
  C7 (as amended). A payload whose parse raises is a handled failure: the handler
  prints it and returns. A payload that parses to a dict always decodes: a missing
  \<open>status\<close> is read as the empty string and the message is handled as one that is
  not an alert, a missing \<open>timestamp\<close> or \<open>location\<close> is read as its default.
\<close>

theorem decode_failure_and_defaults:
  "(ld payload = Inl e \<longrightarrow>
      decode ld payload = Inl e \<and> on_message ld payload = Inr [ParseFailed e])
   \<and> (ld payload = Inr (JObj d) \<longrightarrow>
        (\<exists>st ts loc. decode ld payload = Inr (st, ts, loc) \<and>
           (map_of d ''status'' = None \<longrightarrow> st = JStr []) \<and>
           (map_of d ''timestamp'' = None \<longrightarrow> ts = JStr UNKNOWN_TIME) \<and>
           (map_of d ''location'' = None \<longrightarrow> loc = JStr UNKNOWN_LOCATION))
      \<and> (map_of d ''status'' = None \<longrightarrow> on_message ld payload = Inr [Info (JObj d)]))"
  by (simp add: decode_def on_message_def dict_get_def)

text \<open>
  Witness: a text that is not JSON, a dict without \<open>status\<close> and \<open>location\<close>,
  and a dict with \<open>status\<close> only.
\<close>

theorem decode_failure_and_defaults_witness:
  "on_message sample_loads ''not json'' = Inr [ParseFailed JSONDecodeError]
   \<and> decode sample_loads no_status_wire =
       Inr (JStr [], JStr ''2024-01-01 00:00:00'', JStr UNKNOWN_LOCATION)
   \<and> decode sample_loads ok_wire = Inr (JStr ''OK'', JStr UNKNOWN_TIME, JStr UNKNOWN_LOCATION)"
  using decode_failure_and_defaults [of sample_loads "''not json''" JSONDecodeError "[]"]
        decode_failure_and_defaults [of sample_loads no_status_wire JSONDecodeError
          "[(''timestamp'', JStr ''2024-01-01 00:00:00'')]"]
        decode_failure_and_defaults [of sample_loads ok_wire JSONDecodeError
          "[(''status'', JStr ''OK'')]"]
  by (simp add: sample_loads_values)
     (simp add: sample_loads_def sample_wire_def ok_wire_def no_status_wire_def array_wire_def
        decode_def dict_get_def)

text \<open>
  C7 as stated fails: a dict without \<open>status\<close> decodes, with the empty string as
  status, and is printed as an informational message.
\<close>

theorem missing_status_counterexample:
  "decode sample_loads no_status_wire =
     Inr (JStr [], JStr ''2024-01-01 00:00:00'', JStr UNKNOWN_LOCATION)
   \<and> on_message sample_loads no_status_wire =
       Inr [Info (JObj [(''timestamp'', JStr ''2024-01-01 00:00:00'')])]"
  by (simp add: decode_def on_message_def sample_loads_values dict_get_def)

text \<open>
  C8. Whenever the JSON library reads back the document it has written, the three
  fields the subscriber reads from the wire message are the three strings the
  publisher has put into it.
\<close>

theorem alert_roundtrip:
  "ld (dp (alert_payload st ts loc)) = Inr (alert_payload st ts loc) \<Longrightarrow>
   decode ld (encode dp st ts loc) = Inr (JStr st, JStr ts, JStr loc)"
  by (simp add: decode_def encode_def alert_payload_def dict_get_def)

text \<open>
  Witness: the alert of the sample frames.
\<close>

theorem alert_roundtrip_witness:
  "sample_loads (sample_dumps (alert_payload ''INTRUSION'' ''2024-01-01 00:00:00'' ''Living Room''))
     = Inr (alert_payload ''INTRUSION'' ''2024-01-01 00:00:00'' ''Living Room'')
   \<and> decode sample_loads (encode sample_dumps ''INTRUSION'' ''2024-01-01 00:00:00'' ''Living Room'')
     = Inr (JStr ''INTRUSION'', JStr ''2024-01-01 00:00:00'', JStr ''Living Room'')"
proof -
  have lib: "sample_loads (sample_dumps (alert_payload ''INTRUSION'' ''2024-01-01 00:00:00'' ''Living Room''))
     = Inr (alert_payload ''INTRUSION'' ''2024-01-01 00:00:00'' ''Living Room'')"
    by (simp add: sample_dumps_def sample_loads_values)
  show ?thesis
    using lib alert_roundtrip [of sample_loads sample_dumps "''INTRUSION''"
                  "''2024-01-01 00:00:00''" "''Living Room''", OF lib]
    by simp
qed

section \<open>Process exit: theorems\<close>

text \<open>
  C9 fails on the code for the publisher: after a failed broker connection, and after a
  camera that does not open, \<open>main\<close> returns and the exit status is 0. The
  subscriber exits with status 1 after a failed connection, and both exit with 0 after
  an interrupt or the quit key.
\<close>

theorem startup_failure_exit_status:
  "exit_status (publisher_main True is_opened le) = 0
   \<and> exit_status (publisher_main False False le) = 0
   \<and> exit_status (publisher_main False True le) = 0
   \<and> exit_status (subscriber_main True le') = 1
   \<and> exit_status (subscriber_main False ListenInterrupt) = 0"
  by (simp add: publisher_main_def subscriber_main_def split: loop_end.splits)

end
